theory Spec2Isabelle
  imports Main "HOL-Library.Word"
begin

section \<open>Values, exceptions and effects shared by the transports\<close>

type_synonym byte = "8 word"
type_synonym bytes = "byte list"

text \<open>
  A value handed to or returned by \<^verbatim>\<open>IO.read\<close> / \<^verbatim>\<open>IO.write\<close> is either a Python
  \<^verbatim>\<open>str\<close> or a \<^verbatim>\<open>bytes\<close> object.
\<close>

datatype pyval = PStr string | PBytes bytes

text \<open>
  The exception classes that occur in \<^verbatim>\<open>device_io.py\<close> and \<^verbatim>\<open>nmea/nmea.py\<close>.
  \<open>TaskCancelled\<close> is the exception curio raises inside a task that is cancelled.
\<close>

datatype py_error =
    FileNotFoundError string
  | IsADirectoryError
  | TimeoutError
  | ConnectionError
  | OSError
  | UnicodeDecodeError
  | UnicodeEncodeError
  | AttributeError
  | LookupError
  | TypeError
  | ValueError
  | TaskCancelled
  | NMEAParseError
  | UnknownNMEATag

text \<open>
  Python's built-in hierarchy: \<^verbatim>\<open>TimeoutError\<close>, \<^verbatim>\<open>ConnectionError\<close>,
  \<^verbatim>\<open>FileNotFoundError\<close> and \<^verbatim>\<open>IsADirectoryError\<close> are subclasses of \<^verbatim>\<open>OSError\<close>.
\<close>

fun is_OSError :: "py_error \<Rightarrow> bool" where
  "is_OSError (FileNotFoundError _) = True"
| "is_OSError IsADirectoryError = True"
| "is_OSError TimeoutError = True"
| "is_OSError ConnectionError = True"
| "is_OSError OSError = True"
| "is_OSError _ = False"

datatype log_level = Info | Warn | Error

text \<open>
  What a call does besides changing fields: a line written by \<^verbatim>\<open>logger\<close>, a
  \<^verbatim>\<open>curio.sleep\<close>, and the calls on sockets and tasks. Sockets are named by numbers.
  A log line keeps its level, its fixed text and the value or exception formatted into
  it; addresses, ports and device names formatted into a text are left out.
\<close>

datatype effect =
    Log log_level string
  | LogData log_level string pyval
  | LogExc log_level string py_error
  | Sleep nat
  | SpawnWriteTask
  | CancelWriteTask
  | CloseClient nat
  | Sendall nat pyval
  | Flush

text \<open>
  How an awaited call ends: it returns a value, it raises, or it is still suspended
  (on a queue or a socket) when the observation ends.
\<close>

datatype 'a outcome = Returned 'a | Suspended | Raised py_error

section \<open>The base class IO\<close>

text \<open>
  \<^verbatim>\<open>self._encoding\<close> is \<^verbatim>\<open>False\<close> (here \<open>None\<close>) or the name of a codec. The codec is
  Python's; it is a parameter of the model: \<open>decode_fn\<close> is \<^verbatim>\<open>bytes.decode\<close> and
  \<open>encode_fn\<close> is \<^verbatim>\<open>str.encode\<close> for that name, each returning the exception it raises.
\<close>

record codec =
  decode_fn :: "bytes \<Rightarrow> py_error + string"
  encode_fn :: "string \<Rightarrow> py_error + bytes"

record 's io =
  encoding :: "codec option"
  transport :: 's
  effects :: "effect list"

text \<open>
  \<^verbatim>\<open>IO.read\<close>: call the backend's \<^verbatim>\<open>_read\<close> under the lock, then decode when an
  encoding is set. Only \<^verbatim>\<open>UnicodeDecodeError\<close> is caught. The backend's \<^verbatim>\<open>_read\<close> is
  abstract in \<^verbatim>\<open>IO\<close>, hence a parameter; it returns its result (or the exception it
  raises) and the backend's new state. This is the call when no other call on the
  instance holds \<^verbatim>\<open>_read_write_lock\<close>, so that \<^verbatim>\<open>async with\<close> is entered at once; a
  call that finds the lock held is \<open>IO_write_call\<close> below, and the interleavings of
  several tasks are modelled in the last section.
\<close>

definition IO_read ::
  "(int \<Rightarrow> 's \<Rightarrow> bytes outcome \<times> 's) \<Rightarrow> int \<Rightarrow> 's io \<Rightarrow> pyval outcome \<times> 's io" where
  "IO_read backend_read n io =
     (case backend_read n (transport io) of
        (Raised e, s') \<Rightarrow> (Raised e, io\<lparr>transport := s'\<rparr>)
      | (Suspended, s') \<Rightarrow> (Suspended, io\<lparr>transport := s'\<rparr>)
      | (Returned data, s') \<Rightarrow>
          (case encoding io of
             None \<Rightarrow> (Returned (PBytes data), io\<lparr>transport := s'\<rparr>)
           | Some c \<Rightarrow>
               (case decode_fn c data of
                  Inr txt \<Rightarrow> (Returned (PStr txt), io\<lparr>transport := s'\<rparr>)
                | Inl e \<Rightarrow>
                    if e = UnicodeDecodeError
                    then (Returned (PStr []),
                          io\<lparr>transport := s',
                             effects := effects io @ [LogData Error ''Could not decode: '' (PBytes data)]\<rparr>)
                    else (Raised e, io\<lparr>transport := s'\<rparr>))))"

text \<open>
  \<^verbatim>\<open>IO.write\<close>: encode first when an encoding is set (a \<^verbatim>\<open>bytes\<close> object has no
  \<^verbatim>\<open>encode\<close>, which raises \<^verbatim>\<open>AttributeError\<close>); only \<^verbatim>\<open>UnicodeEncodeError\<close> is caught,
  and then \<^verbatim>\<open>bytes()\<close> is what goes to the backend's \<^verbatim>\<open>_write\<close>. \<open>IO_write\<close> is the
  call when no other call holds the lock.
\<close>

definition encode_for_write :: "codec option \<Rightarrow> pyval \<Rightarrow> (py_error + pyval) \<times> effect list" where
  "encode_for_write enc data =
     (case enc of
        None \<Rightarrow> (Inr data, [])
      | Some c \<Rightarrow>
          (case data of
             PBytes b \<Rightarrow> (Inl AttributeError, [])
           | PStr s \<Rightarrow>
               (case encode_fn c s of
                  Inr b \<Rightarrow> (Inr (PBytes b), [])
                | Inl e \<Rightarrow>
                    if e = UnicodeEncodeError
                    then (Inr (PBytes []), [LogData Error ''Could not encode: '' (PStr s)])
                    else (Inl e, []))))"

definition IO_write ::
  "(pyval \<Rightarrow> 's \<Rightarrow> 'r outcome \<times> 's) \<Rightarrow> pyval \<Rightarrow> 's io \<Rightarrow> 'r outcome \<times> 's io" where
  "IO_write backend_write data io =
     (case encode_for_write (encoding io) data of
        (Inl e, logged) \<Rightarrow> (Raised e, io\<lparr>effects := effects io @ logged\<rparr>)
      | (Inr payload, logged) \<Rightarrow>
          (case backend_write payload (transport io) of
             (res, s') \<Rightarrow> (res, io\<lparr>transport := s', effects := effects io @ logged\<rparr>)))"


text \<open>
  An ASCII codec, to run the definitions on concrete inputs: bytes and characters
  from 128 on have no ASCII form.
\<close>

definition ascii_codec :: codec where
  "ascii_codec =
     \<lparr>decode_fn = (\<lambda>bs. if list_all (\<lambda>b. unat b < 128) bs
                        then Inr (map (\<lambda>b. char_of (unat b)) bs)
                        else Inl UnicodeDecodeError),
      encode_fn = (\<lambda>s. if list_all (\<lambda>c. (of_char c :: nat) < 128) s
                        then Inr (map (\<lambda>c. of_nat (of_char c)) s)
                        else Inl UnicodeEncodeError)\<rparr>"

section \<open>The replayable file\<close>

text \<open>
  The file system as \<^verbatim>\<open>pathlib\<close> and \<^verbatim>\<open>curio.aopen\<close> see it: a path names a regular
  file with its bytes, a directory, or nothing.
\<close>

datatype fs_node = RegularFile bytes | Directory

type_synonym filesystem = "string \<rightharpoonup> fs_node"

record file_io =
  path_to_file :: string
  last_index :: int

definition File_init :: "string \<Rightarrow> file_io" where
  "File_init path = \<lparr>path_to_file = path, last_index = 0\<rparr>"

definition File_initialize :: "filesystem \<Rightarrow> file_io \<Rightarrow> unit outcome \<times> file_io" where
  "File_initialize fs f =
     (if fs (path_to_file f) = None
      then (Raised (FileNotFoundError
                      (''File at path '' @ [CHR 0x22] @ path_to_file f @ [CHR 0x22] @ '' does not exist'')), f)
      else (Returned (), f))"

text \<open>
  Python's \<^verbatim>\<open>xs[start:stop]\<close>: a negative index counts from the end, and both ends
  are clamped to the sequence.
\<close>

definition py_slice :: "'a list \<Rightarrow> int \<Rightarrow> int \<Rightarrow> 'a list" where
  "py_slice xs start stop =
     (let n = int (length xs);
          clamp = (\<lambda>i. if i < 0 then max (i + n) 0 else min i n);
          s = clamp start;
          e = clamp stop
      in if s < e then take (nat (e - s)) (drop (nat s) xs) else [])"

text \<open>
  \<^verbatim>\<open>File._read\<close> opens the file again at every call and reads all of it, slices at the
  cursor and moves the cursor by \<^verbatim>\<open>length\<close>. The comparison \<^verbatim>\<open>ret_val == ""\<close> of a
  \<^verbatim>\<open>bytes\<close> object with a \<^verbatim>\<open>str\<close> is never true, and \<^verbatim>\<open>curio.sleep(0)\<close> changes nothing.
\<close>

definition File_read :: "filesystem \<Rightarrow> int \<Rightarrow> file_io \<Rightarrow> bytes outcome \<times> file_io" where
  "File_read fs n f =
     (case fs (path_to_file f) of
        None \<Rightarrow> (Raised (FileNotFoundError (path_to_file f)), f)
      | Some Directory \<Rightarrow> (Raised IsADirectoryError, f)
      | Some (RegularFile lines) \<Rightarrow>
          (Returned (py_slice lines (last_index f) (last_index f + n)),
           f\<lparr>last_index := last_index f + n\<rparr>))"

section \<open>Bounded queues of curio\<close>

text \<open>
  \<^verbatim>\<open>curio.Queue(maxsize)\<close>: \<^verbatim>\<open>full()\<close> holds when a bound is set and reached;
  \<^verbatim>\<open>put\<close> suspends the caller while the queue is full and \<^verbatim>\<open>get\<close> while it is
  empty (here \<open>None\<close>).
\<close>

record 'a queue =
  maxsize :: nat
  queued :: "'a list"

definition Queue :: "nat \<Rightarrow> 'a queue" where
  "Queue n = \<lparr>maxsize = n, queued = []\<rparr>"

definition qsize :: "'a queue \<Rightarrow> nat" where
  "qsize q = length (queued q)"

definition full :: "'a queue \<Rightarrow> bool" where
  "full q = (maxsize q \<noteq> 0 \<and> qsize q = maxsize q)"

definition queue_put :: "'a queue \<Rightarrow> 'a \<Rightarrow> 'a queue option" where
  "queue_put q x = (if full q then None else Some (q\<lparr>queued := queued q @ [x]\<rparr>))"

definition queue_get :: "'a queue \<Rightarrow> ('a \<times> 'a queue) option" where
  "queue_get q = (case queued q of [] \<Rightarrow> None | x # xs \<Rightarrow> Some (x, q\<lparr>queued := xs\<rparr>))"

section \<open>The TCP transports\<close>

text \<open>
  The fields of \<^verbatim>\<open>TCP\<close>; \<open>write_task_handle\<close> says whether \<^verbatim>\<open>_write_task_handle\<close>
  holds a task, \<open>address\<close> is the peer's address as text.
\<close>

record tcp =
  clients :: "nat list"
  port :: int
  address :: string
  write_task_handle :: bool
  read_write_size :: nat
  read_queue :: "bytes queue"
  temp_read_block :: "bytes option"
  write_queue :: "pyval queue"
  tcp_effects :: "effect list"

definition TCP_init :: "int \<Rightarrow> tcp" where
  "TCP_init p =
     \<lparr>clients = [], port = p, address = [], write_task_handle = False,
      read_write_size = 1000, read_queue = Queue 1000, temp_read_block = None,
      write_queue = Queue 1000, tcp_effects = []\<rparr>"

definition tcp_do :: "effect \<Rightarrow> tcp \<Rightarrow> tcp" where
  "tcp_do e st = st\<lparr>tcp_effects := tcp_effects st @ [e]\<rparr>"

text \<open>
  \<^verbatim>\<open>TCP._read\<close>: \<^verbatim>\<open>length\<close> times, take the next block from the read queue when the
  current one is used up, and move one byte of it to the result. The bytes gathered so
  far are the last argument.
\<close>

fun TCP_read_loop :: "nat \<Rightarrow> tcp \<Rightarrow> bytes \<Rightarrow> bytes outcome \<times> tcp" where
  "TCP_read_loop 0 st byte_array = (Returned byte_array, st)"
| "TCP_read_loop (Suc k) st byte_array =
     (case (if temp_read_block st = None \<or> temp_read_block st = Some []
            then (case queue_get (read_queue st) of
                    None \<Rightarrow> None
                  | Some (blk, q) \<Rightarrow> Some (blk, st\<lparr>read_queue := q\<rparr>))
            else Some (the (temp_read_block st), st)) of
        None \<Rightarrow> (Suspended, st)
      | Some (blk, st1) \<Rightarrow>
          TCP_read_loop k (st1\<lparr>temp_read_block := Some (drop 1 blk)\<rparr>) (byte_array @ take 1 blk))"

definition TCP_read :: "int \<Rightarrow> tcp \<Rightarrow> bytes outcome \<times> tcp" where
  "TCP_read n st = TCP_read_loop (nat n) st []"

text \<open>\<^verbatim>\<open>TCP._write\<close>.\<close>

definition TCP_write :: "pyval \<Rightarrow> tcp \<Rightarrow> unit outcome \<times> tcp" where
  "TCP_write data st =
     (let st1 = (if clients st = []
                 then tcp_do (Log Info ''TCP: Not writing, no client connected'') st
                 else st)
      in if full (write_queue st1)
         then (Returned (), tcp_do (Log Warn ''Write-Queue is full. Not writing'') st1)
         else (case queue_put (write_queue st1) data of
                 None \<Rightarrow> (Suspended, st1)
               | Some q \<Rightarrow> (Returned (), st1\<lparr>write_queue := q\<rparr>)))"


text \<open>
  \<^verbatim>\<open>TCP._serve_client\<close>. What \<^verbatim>\<open>client.recv\<close> gives, call after call, is the
  environment's: a block of bytes (the empty block when the peer has disconnected) or
  an exception. \<open>serve_client_block\<close> is the loop's body for a block that is not empty.
\<close>

datatype recv_event = Recv bytes | RecvRaises py_error

datatype serve_end = StillServing | Disconnected | Failed py_error

definition serve_client_block :: "bytes \<Rightarrow> tcp \<Rightarrow> unit outcome \<times> tcp" where
  "serve_client_block data_block st =
     (if full (read_queue st)
      then (Returned (), tcp_do (Log Warn ''Read-Queue is full. Not reading'') st)
      else (case queue_put (read_queue st) data_block of
              None \<Rightarrow> (Suspended, st)
            | Some q \<Rightarrow> (Returned (), st\<lparr>read_queue := q\<rparr>)))"

fun serve_client_loop :: "recv_event list \<Rightarrow> tcp \<Rightarrow> serve_end \<times> tcp" where
  "serve_client_loop [] st = (StillServing, st)"
| "serve_client_loop (RecvRaises e # rest) st = (Failed e, st)"
| "serve_client_loop (Recv data_block # rest) st =
     (if data_block = [] then (Disconnected, st)
      else (case serve_client_block data_block st of
              (Returned u, st1) \<Rightarrow> serve_client_loop rest st1
            | (Suspended, st1) \<Rightarrow> (StillServing, st1)
            | (Raised e, st1) \<Rightarrow> (Failed e, st1)))"

text \<open>
  What \<^verbatim>\<open>except Exception\<close> catches. Every class here derives from \<^verbatim>\<open>Exception\<close> but
  curio's cancellation, which curio derives from \<^verbatim>\<open>BaseException\<close> from version 1.5 on:
  a cancelled task then skips the handler and runs the \<^verbatim>\<open>finally\<close> block only. (Under
  curio 1.4 the handler runs for a cancellation too and closes the socket first.)
\<close>

fun is_Exception :: "py_error \<Rightarrow> bool" where
  "is_Exception TaskCancelled = False"
| "is_Exception _ = True"

definition serve_client_finally :: "nat \<Rightarrow> tcp \<Rightarrow> tcp" where
  "serve_client_finally client st =
     st\<lparr>tcp_effects := tcp_effects st @ [Log Warn ''Client closed connection'', CancelWriteTask],
        clients := remove1 client (clients st),
        address := []\<rparr>"

definition serve_client :: "nat \<Rightarrow> string \<Rightarrow> recv_event list \<Rightarrow> tcp \<Rightarrow> unit outcome \<times> tcp" where
  "serve_client client addr recvs st =
     (let st1 = st\<lparr>address := addr,
                   tcp_effects := tcp_effects st @ [Log Info ''Client connected'', SpawnWriteTask],
                   write_task_handle := True\<rparr>;
          st2 = st1\<lparr>clients := clients st1 @ [client]\<rparr>
      in case serve_client_loop recvs st2 of
           (StillServing, st3) \<Rightarrow> (Suspended, st3)
         | (Disconnected, st3) \<Rightarrow> (Returned (), serve_client_finally client st3)
         | (Failed e, st3) \<Rightarrow>
             (Raised e,
              serve_client_finally client
                (if is_Exception e then tcp_do (CloseClient client) st3 else st3)))"







definition charset_example_io :: "tcp io" where
  "charset_example_io =
     \<lparr>encoding = Some ascii_codec,
      transport = snd (serve_client_block [0xFF] (TCP_init 2000)),
      effects = []\<rparr>"

subsection \<open>The reconnecting client\<close>

text \<open>
  \<^verbatim>\<open>TCPClient._open_connection\<close>. Each pass of the loop meets what the environment
  does next: \<^verbatim>\<open>curio.open_connection\<close> raises, or it returns a socket and
  \<^verbatim>\<open>_serve_client\<close> runs on what that socket receives. A cancellation of the task
  arrives as \<open>TaskCancelled\<close>, raised by the call the task is suspended in. The clause
  \<^verbatim>\<open>except (TimeoutError, ConnectionError, OSError)\<close> catches the instances of
  \<^verbatim>\<open>OSError\<close>, the other two being subclasses of it. A cancellation during the sleep
  ends the loop as one during the connection attempt that follows. When the script ends
  the task is suspended inside the loop.
\<close>

datatype attempt = ConnectRaises py_error | Connected nat "recv_event list"

datatype loop_status = Running | Exited py_error

definition retry_after :: "py_error \<Rightarrow> tcp \<Rightarrow> tcp" where
  "retry_after e st =
     st\<lparr>tcp_effects := tcp_effects st @ [LogExc Error ''ConnectionError: '' e, Sleep 1]\<rparr>"

fun open_connection_loop :: "string \<Rightarrow> attempt list \<Rightarrow> tcp \<Rightarrow> loop_status \<times> tcp" where
  "open_connection_loop ip [] st = (Running, st)"
| "open_connection_loop ip (ConnectRaises e # rest) st =
     (let st1 = tcp_do (Log Info ''Trying to connect...'') st
      in if is_OSError e then open_connection_loop ip rest (retry_after e st1)
         else (Exited e, st1))"
| "open_connection_loop ip (Connected client recvs # rest) st =
     (let st1 = tcp_do (Log Info ''Trying to connect...'') st
      in case serve_client client ip recvs st1 of
           (Returned u, st2) \<Rightarrow> open_connection_loop ip rest st2
         | (Suspended, st2) \<Rightarrow> (Running, st2)
         | (Raised e, st2) \<Rightarrow>
             if is_OSError e then open_connection_loop ip rest (retry_after e st2)
             else (Exited e, st2))"

fun raised_in :: "attempt \<Rightarrow> py_error list" where
  "raised_in (ConnectRaises e) = [e]"
| "raised_in (Connected client recvs) = concat (map (\<lambda>r. case r of RecvRaises e \<Rightarrow> [e] | Recv b \<Rightarrow> []) recvs)"

text \<open>
  The state after the connection attempts that raised the exceptions \<open>es\<close>, all caught.
\<close>

fun after_failures :: "py_error list \<Rightarrow> tcp \<Rightarrow> tcp" where
  "after_failures [] st = st"
| "after_failures (e # es) st =
     after_failures es (retry_after e (tcp_do (Log Info ''Trying to connect...'') st))"

section \<open>The NMEA device\<close>










section \<open>The binary frame codec\<close>

text \<open>
  Modelled from the spec: the decoder of binary frames (\<^verbatim>\<open>seatalk/seatalk.py\<close> and
  \<^verbatim>\<open>seatalk/seatalk_datagram.py\<close>, which \<^verbatim>\<open>tests/test_seatalk.py\<close> imports) is not among
  the sources. The errors of a decode attempt are those the specification names.
\<close>

datatype decode_error =
    UnrecognizedCommand
  | InsufficientData
  | ExcessData
  | ChecksumMismatch
  | DataValidationException

text \<open>
  Modelled from the spec: an entry of the dispatch table (the table itself is missing
  with the decoder). It holds the frame-length rule, which gives the expected total
  length of a frame from its length-encoding byte, and the extraction of the fields
  from that byte and the payload.
\<close>

record 'd table_entry =
  frame_length_rule :: "byte \<Rightarrow> nat"
  extract_fields :: "byte \<Rightarrow> bytes \<Rightarrow> decode_error + 'd"

text \<open>
  Modelled from the spec: the decode algorithm of its section 4.3, steps (1) to (6), for
  the frame shape command byte, length-encoding byte, payload, checksum byte. The
  checksum function is a parameter, the specification leaving its arithmetic open. A
  frame too short to hold the command byte or the length-encoding byte cannot be the
  full frame, which the specification answers with \<open>InsufficientData\<close>.
\<close>

definition decode :: "(byte \<rightharpoonup> 'd table_entry) \<Rightarrow> (bytes \<Rightarrow> byte) \<Rightarrow> bytes \<Rightarrow> decode_error + 'd" where
  "decode table checksum frame =
     (case frame of
        [] \<Rightarrow> Inl InsufficientData
      | command # rest \<Rightarrow>
          (case table command of
             None \<Rightarrow> Inl UnrecognizedCommand
           | Some entry \<Rightarrow>
               (case rest of
                  [] \<Rightarrow> Inl InsufficientData
                | length_byte # remainder \<Rightarrow>
                    let expected = frame_length_rule entry length_byte
                    in if length frame < expected then Inl InsufficientData
                       else if expected < length frame then Inl ExcessData
                       else if checksum (butlast frame) \<noteq> last frame then Inl ChecksumMismatch
                       else extract_fields entry length_byte (butlast remainder))))"

text \<open>
  Modelled from the spec: the read loop of the device for binary frames (section 4.2,
  steps 2 to 4), which is missing with the decoder. Each candidate frame goes to the
  codec; a datagram is published, a failure is logged and the loop goes on with the
  next frame. The result is what was published and what was logged, in order.
\<close>

fun decode_frames ::
  "(byte \<rightharpoonup> 'd table_entry) \<Rightarrow> (bytes \<Rightarrow> byte) \<Rightarrow> bytes list \<Rightarrow> 'd list \<times> decode_error list" where
  "decode_frames table checksum [] = ([], [])"
| "decode_frames table checksum (frame # frames) =
     (case decode_frames table checksum frames of
        (published, logged) \<Rightarrow>
          (case decode table checksum frame of
             Inl e \<Rightarrow> (published, e # logged)
           | Inr d \<Rightarrow> (d # published, logged)))"

text \<open>
  Modelled from the spec: a table and a checksum to run the decoder on, there being no
  table among the sources. The frames of command 0 have five bytes, as the depth frame
  of the tests has, and the datagram is the payload; the checksum is the sum of the
  bytes before it.
\<close>

definition example_table :: "byte \<rightharpoonup> bytes table_entry" where
  "example_table =
     [0 \<mapsto> \<lparr>frame_length_rule = (\<lambda>length_byte. 5),
             extract_fields = (\<lambda>length_byte payload. Inr payload)\<rparr>]"

definition example_checksum :: "bytes \<Rightarrow> byte" where
  "example_checksum bs = sum_list bs"

section \<open>Reads and writes of several tasks on one instance\<close>

text \<open>
  Where a task stands with respect to one \<^verbatim>\<open>IO\<close> instance: outside \<^verbatim>\<open>read\<close> and
  \<^verbatim>\<open>write\<close>; in \<^verbatim>\<open>read\<close>, waiting at \<^verbatim>\<open>async with self._read_write_lock\<close>; in the
  backend's \<^verbatim>\<open>_read\<close> under the lock; in \<^verbatim>\<open>write\<close> (the text already encoded) waiting
  at the same statement; in the backend's \<^verbatim>\<open>_write\<close> under the lock.
\<close>

datatype task_at = Outside | ReadWaits | InRead | WriteWaits | InWrite

text \<open>
  The instance has the one lock \<^verbatim>\<open>_read_write_lock\<close>; \<open>lock_held\<close> is whether a task has
  acquired it. Tasks are named by numbers.
\<close>

record io_tasks =
  lock_held :: bool
  task_at :: "nat \<Rightarrow> task_at"

definition io_tasks_init :: io_tasks where
  "io_tasks_init = \<lparr>lock_held = False, task_at = (\<lambda>t. Outside)\<rparr>"

text \<open>
  What the scheduler can let a task do next. Tasks run one at a time and change only at
  an \<^verbatim>\<open>await\<close>: a task calls \<^verbatim>\<open>read\<close> or \<^verbatim>\<open>write\<close> and reaches the lock; a waiting
  task acquires the lock when it is free and enters the backend call; the backend call
  of a task ends (by return or exception), the \<^verbatim>\<open>async with\<close> releases the lock and the
  call finishes without another \<^verbatim>\<open>await\<close>. A step that is not possible is \<open>None\<close>.
\<close>

datatype task_step = CallRead nat | CallWrite nat | Acquire nat | Finish nat

fun io_task_step :: "task_step \<Rightarrow> io_tasks \<Rightarrow> io_tasks option" where
  "io_task_step (CallRead t) s =
     (if task_at s t = Outside then Some (s\<lparr>task_at := (task_at s)(t := ReadWaits)\<rparr>) else None)"
| "io_task_step (CallWrite t) s =
     (if task_at s t = Outside then Some (s\<lparr>task_at := (task_at s)(t := WriteWaits)\<rparr>) else None)"
| "io_task_step (Acquire t) s =
     (if lock_held s then None
      else if task_at s t = ReadWaits
        then Some (s\<lparr>lock_held := True, task_at := (task_at s)(t := InRead)\<rparr>)
      else if task_at s t = WriteWaits
        then Some (s\<lparr>lock_held := True, task_at := (task_at s)(t := InWrite)\<rparr>)
      else None)"
| "io_task_step (Finish t) s =
     (if task_at s t = InRead \<or> task_at s t = InWrite
      then Some (s\<lparr>lock_held := False, task_at := (task_at s)(t := Outside)\<rparr>)
      else None)"

fun io_task_run :: "task_step list \<Rightarrow> io_tasks \<Rightarrow> io_tasks option" where
  "io_task_run [] s = Some s"
| "io_task_run (x # xs) s =
     (case io_task_step x s of None \<Rightarrow> None | Some s' \<Rightarrow> io_task_run xs s')"

definition in_backend :: "io_tasks \<Rightarrow> nat \<Rightarrow> bool" where
  "in_backend s t \<longleftrightarrow> task_at s t = InRead \<or> task_at s t = InWrite"

text \<open>The lock is held exactly while some task is in a backend call, and by one task only.\<close>

definition lock_guards :: "io_tasks \<Rightarrow> bool" where
  "lock_guards s \<longleftrightarrow>
     (\<forall>t. in_backend s t \<longrightarrow> lock_held s) \<and> (\<forall>t u. in_backend s t \<and> in_backend s u \<longrightarrow> t = u)"

section \<open>Properties of the replayable file\<close>

lemma py_slice_nonneg:
  assumes "0 \<le> c" and "0 \<le> n"
  shows "py_slice xs c (c + n) = take (nat n) (drop (nat c) xs)"
proof (cases "c < int (length xs)")
  case True
  show ?thesis
  proof (cases "c + n \<le> int (length xs)")
    case True
    with assms \<open>c < int (length xs)\<close> show ?thesis
      by (simp add: py_slice_def Let_def min_def)
  next
    case False
    with assms \<open>c < int (length xs)\<close> have "length xs - nat c \<le> nat n" by linarith
    with assms False \<open>c < int (length xs)\<close> show ?thesis
      by (simp add: py_slice_def Let_def min_def nat_diff_distrib)
  qed
next
  case False
  with assms show ?thesis
    by (simp add: py_slice_def Let_def min_def)
qed

text \<open>
  Claim C8. \<^verbatim>\<open>File.initialize\<close> raises \<^verbatim>\<open>FileNotFoundError\<close> exactly when the path does
  not exist; when it exists the call returns normally; in both cases the path and the
  cursor of the instance are what they were.
\<close>

theorem File_initialize_raises_iff_missing:
  "((\<exists>msg. fst (File_initialize fs f) = Raised (FileNotFoundError msg)) \<longleftrightarrow> fs (path_to_file f) = None)
   \<and> (fst (File_initialize fs f) = Returned () \<longleftrightarrow> fs (path_to_file f) \<noteq> None)
   \<and> snd (File_initialize fs f) = f"
  by (simp add: File_initialize_def)

theorem File_initialize_witness:
  "fst (File_initialize [''seatalk_raw.hex'' \<mapsto> RegularFile [0, 2, 0, 0xDB, 2]]
          (File_init ''seatalk_raw.hex'')) = Returned ()
   \<and> snd (File_initialize [''seatalk_raw.hex'' \<mapsto> RegularFile [0, 2, 0, 0xDB, 2]]
          (File_init ''seatalk_raw.hex'')) = File_init ''seatalk_raw.hex''
   \<and> fst (File_initialize Map.empty (File_init ''seatalk_raw.hex''))
       = Raised (FileNotFoundError
                  (''File at path '' @ [CHR 0x22] @ ''seatalk_raw.hex'' @ [CHR 0x22] @ '' does not exist''))"
  using File_initialize_raises_iff_missing
          [of "[''seatalk_raw.hex'' \<mapsto> RegularFile [0, 2, 0, 0xDB, 2]]" "File_init ''seatalk_raw.hex''"]
  by (simp add: File_initialize_def File_init_def)

text \<open>
  Claim C9, as the code has it. With the cursor at \<open>c \<ge> 0\<close> and the path naming a
  regular file, \<^verbatim>\<open>_read(n)\<close> for \<open>n \<ge> 0\<close> reads the file anew, returns the bytes
  \<open>[c, c + n)\<close> of its contents (fewer when the file ends first) and moves the cursor
  by exactly \<open>n\<close>. The cursor grows strictly exactly when \<open>n > 0\<close>; a read of no bytes
  leaves it where it was. Two reads in a row return adjoining slices that do not
  overlap.
\<close>

theorem File_read_slice_and_cursor:
  assumes "fs (path_to_file f) = Some (RegularFile lines)"
    and "0 \<le> last_index f" and "0 \<le> n" and "0 \<le> m"
  shows "File_read fs n f =
           (Returned (take (nat n) (drop (nat (last_index f)) lines)), f\<lparr>last_index := last_index f + n\<rparr>)
       \<and> (last_index f < last_index (snd (File_read fs n f))) = (0 < n)
       \<and> File_read fs m (snd (File_read fs n f)) =
           (Returned (take (nat m) (drop (nat (last_index f) + nat n) lines)),
            f\<lparr>last_index := last_index f + n + m\<rparr>)
       \<and> take (nat n) (drop (nat (last_index f)) lines)
           @ take (nat m) (drop (nat (last_index f) + nat n) lines)
         = take (nat n + nat m) (drop (nat (last_index f)) lines)"
proof -
  have first: "File_read fs n f =
      (Returned (take (nat n) (drop (nat (last_index f)) lines)), f\<lparr>last_index := last_index f + n\<rparr>)"
    using assms by (simp add: File_read_def py_slice_nonneg)
  have second: "File_read fs m (f\<lparr>last_index := last_index f + n\<rparr>) =
      (Returned (take (nat m) (drop (nat (last_index f) + nat n) lines)),
       f\<lparr>last_index := last_index f + n + m\<rparr>)"
    using assms by (simp add: File_read_def py_slice_nonneg nat_add_distrib)
  have joined: "take (nat n) (drop (nat (last_index f)) lines)
           @ take (nat m) (drop (nat (last_index f) + nat n) lines)
         = take (nat n + nat m) (drop (nat (last_index f)) lines)"
    by (simp add: take_add add.commute [of "nat (last_index f)"])
  from first second joined show ?thesis by simp
qed

theorem File_read_witness:
  "File_read [''replay'' \<mapsto> RegularFile [0, 2, 0, 0xDB, 2]] 2 (File_init ''replay'')
     = (Returned [0, 2], \<lparr>path_to_file = ''replay'', last_index = 2\<rparr>)
   \<and> File_read [''replay'' \<mapsto> RegularFile [0, 2, 0, 0xDB, 2]] 4
        (snd (File_read [''replay'' \<mapsto> RegularFile [0, 2, 0, 0xDB, 2]] 2 (File_init ''replay'')))
     = (Returned [0, 0xDB, 2], \<lparr>path_to_file = ''replay'', last_index = 6\<rparr>)"
  using File_read_slice_and_cursor
    [of "[''replay'' \<mapsto> RegularFile [0, 2, 0, 0xDB, 2]]" "File_init ''replay''" "[0, 2, 0, 0xDB, 2]" 2 4]
  by (simp add: File_init_def File_read_def py_slice_def)

text \<open>
  The claim's "strictly increasing" fails for a read of length 0: the call returns no
  bytes and the cursor stays.
\<close>

theorem File_read_zero_counterexample:
  "File_read [''replay'' \<mapsto> RegularFile [0, 2, 0, 0xDB, 2]] 0 (File_init ''replay'')
     = (Returned [], File_init ''replay'')
   \<and> \<not> last_index (File_init ''replay'')
        < last_index (snd (File_read [''replay'' \<mapsto> RegularFile [0, 2, 0, 0xDB, 2]] 0 (File_init ''replay'')))"
  by (simp add: File_read_def File_init_def py_slice_def)

section \<open>Properties of the base class IO\<close>

text \<open>
  Claim C7. With an encoding configured, \<^verbatim>\<open>IO.read\<close> answers a \<^verbatim>\<open>UnicodeDecodeError\<close>
  of the bytes just read by logging an error and returning the empty string, and
  \<^verbatim>\<open>IO.write\<close> answers a \<^verbatim>\<open>UnicodeEncodeError\<close> of the text by logging an error and
  handing the empty byte string to the backend's \<^verbatim>\<open>_write\<close>; the result of the call is
  that of the backend, so the encoding error is not raised.
\<close>

theorem IO_charset_errors:
  assumes "encoding io = Some c"
  shows "(backend_read n (transport io) = (Returned data, s') \<and> decode_fn c data = Inl UnicodeDecodeError
            \<longrightarrow> IO_read backend_read n io =
                  (Returned (PStr []),
                   io\<lparr>transport := s',
                      effects := effects io @ [LogData Error ''Could not decode: '' (PBytes data)]\<rparr>))
       \<and> (encode_fn c txt = Inl UnicodeEncodeError
            \<longrightarrow> IO_write backend_write (PStr txt) io =
                  (fst (backend_write (PBytes []) (transport io)),
                   io\<lparr>transport := snd (backend_write (PBytes []) (transport io)),
                      effects := effects io @ [LogData Error ''Could not encode: '' (PStr txt)]\<rparr>))"
  using assms
  by (simp add: IO_read_def IO_write_def encode_for_write_def split: prod.splits)


theorem IO_charset_errors_witness:
  "fst (IO_read TCP_read 1 charset_example_io) = Returned (PStr [])
   \<and> effects (snd (IO_read TCP_read 1 charset_example_io))
       = [LogData Error ''Could not decode: '' (PBytes [0xFF])]
   \<and> fst (IO_write TCP_write (PStr [CHR 0xE9]) charset_example_io) = Returned ()
   \<and> queued (write_queue (transport (snd (IO_write TCP_write (PStr [CHR 0xE9]) charset_example_io))))
       = [PBytes []]
   \<and> effects (snd (IO_write TCP_write (PStr [CHR 0xE9]) charset_example_io))
       = [LogData Error ''Could not encode: '' (PStr [CHR 0xE9])]"
proof -
  have enc: "encoding charset_example_io = Some ascii_codec"
    by (simp add: charset_example_io_def)
  have rd: "TCP_read 1 (transport charset_example_io)
      = (Returned [0xFF], (TCP_init 2000)\<lparr>temp_read_block := Some []\<rparr>)"
    by (simp add: charset_example_io_def TCP_read_def serve_client_block_def TCP_init_def
        full_def qsize_def Queue_def queue_put_def queue_get_def)
  have dec: "decode_fn ascii_codec [0xFF] = Inl UnicodeDecodeError"
    by (simp add: ascii_codec_def)
  have en: "encode_fn ascii_codec [CHR 0xE9] = Inl UnicodeEncodeError"
    by (simp add: ascii_codec_def)
  have wr: "TCP_write (PBytes []) (transport charset_example_io)
      = (Returned (),
         (transport charset_example_io)
           \<lparr>write_queue := \<lparr>maxsize = 1000, queued = [PBytes []]\<rparr>,
            tcp_effects := [Log Info ''TCP: Not writing, no client connected'']\<rparr>)"
    by (simp add: charset_example_io_def TCP_write_def serve_client_block_def TCP_init_def
        full_def qsize_def Queue_def queue_put_def tcp_do_def Let_def)
  from IO_charset_errors [OF enc, of TCP_read 1 "[0xFF]" "(TCP_init 2000)\<lparr>temp_read_block := Some []\<rparr>"
      "[CHR 0xE9]" TCP_write] rd dec en wr
  show ?thesis by (simp add: charset_example_io_def)
qed

section \<open>Properties of the TCP transports\<close>

lemma queue_put_bounded:
  assumes "queue_put q x = Some q'" and "maxsize q = 1000" and "qsize q \<le> 1000"
  shows "maxsize q' = 1000 \<and> qsize q' \<le> 1000"
  using assms by (auto simp: queue_put_def full_def qsize_def split: if_splits)


















subsection \<open>Retrying the connection\<close>

lemma serve_client_block_not_raised: "fst (serve_client_block b st) \<noteq> Raised e"
  by (simp add: serve_client_block_def split: option.splits)

lemma serve_client_loop_failed:
  "serve_client_loop recvs st = (Failed e, st') \<Longrightarrow> RecvRaises e \<in> set recvs"
proof (induction recvs st rule: serve_client_loop.induct)
  case (1 st)
  then show ?case by simp
next
  case (2 e' rest st)
  then show ?case by simp
next
  case (3 data_block rest st)
  show ?case
  proof (cases "data_block = []")
    case True
    with 3 show ?thesis by simp
  next
    case False
    obtain r st1 where blk: "serve_client_block data_block st = (r, st1)"
      by (cases "serve_client_block data_block st")
    have nr: "r \<noteq> Raised x" for x
      using serve_client_block_not_raised [of data_block st x] blk by simp
    show ?thesis
    proof (cases r)
      case (Returned u)
      with 3 False blk show ?thesis by simp
    next
      case Suspended
      with 3 False blk show ?thesis by simp
    next
      case (Raised x)
      with nr show ?thesis by blast
    qed
  qed
qed

lemma serve_client_raised:
  assumes "serve_client client addr recvs st = (Raised e, st')"
  shows "e \<in> set (raised_in (Connected client recvs))"
proof -
  from assms obtain st3 where
    "serve_client_loop recvs
       (st\<lparr>address := addr,
           tcp_effects := tcp_effects st @ [Log Info ''Client connected'', SpawnWriteTask],
           write_task_handle := True,
           clients := clients st @ [client]\<rparr>) = (Failed e, st3)"
    by (auto simp: serve_client_def Let_def split: prod.splits serve_end.splits if_splits)
  then have "RecvRaises e \<in> set recvs" by (rule serve_client_loop_failed)
  then show ?thesis by (force split: recv_event.splits)
qed

lemma open_connection_loop_exit:
  "fst (open_connection_loop ip script st) = Exited e \<Longrightarrow>
     \<not> is_OSError e \<and> e \<in> set (concat (map raised_in script))"
proof (induction ip script st rule: open_connection_loop.induct)
  case (1 ip st)
  then show ?case by simp
next
  case (2 ip e' rest st)
  then show ?case by (auto simp: Let_def split: if_splits)
next
  case (3 ip client recvs rest st)
  let ?st1 = "tcp_do (Log Info ''Trying to connect...'') st"
  obtain r st2 where sc: "serve_client client ip recvs ?st1 = (r, st2)"
    by (cases "serve_client client ip recvs ?st1")
  show ?case
  proof (cases r)
    case (Returned u)
    with 3 sc show ?thesis by (auto simp: Let_def)
  next
    case Suspended
    with 3 sc show ?thesis by (simp add: Let_def)
  next
    case (Raised x)
    with sc have mem: "x \<in> set (raised_in (Connected client recvs))"
      using serve_client_raised by blast
    show ?thesis
    proof (cases "is_OSError x")
      case True
      with 3 sc Raised show ?thesis by (auto simp: Let_def)
    next
      case False
      with 3(3) sc Raised mem show ?thesis by (auto simp: Let_def)
    qed
  qed
qed

lemma open_connection_loop_failures:
  "list_all is_OSError es \<Longrightarrow>
     open_connection_loop ip (map ConnectRaises es @ script) st
       = open_connection_loop ip script (after_failures es st)"
  by (induction es arbitrary: st) (simp_all add: Let_def)

lemma after_failures_effects:
  "tcp_effects (after_failures es st)
     = tcp_effects st
       @ concat (map (\<lambda>e. [Log Info ''Trying to connect...'', LogExc Error ''ConnectionError: '' e, Sleep 1]) es)"
  by (induction es arbitrary: st) (simp_all add: retry_after_def tcp_do_def)

lemma after_failures_clients: "clients (after_failures es st) = clients st"
  by (induction es arbitrary: st) (simp_all add: retry_after_def tcp_do_def)

text \<open>
  Claim C6, as the code has it. A connection-class failure, that is an exception that is
  an instance of \<^verbatim>\<open>OSError\<close> (\<^verbatim>\<open>TimeoutError\<close> and \<^verbatim>\<open>ConnectionError\<close> are), is answered
  by an error line in the log and a sleep of one second, and the loop goes on with the
  next attempt, whether the exception comes out of \<^verbatim>\<open>curio.open_connection\<close> or out of
  \<^verbatim>\<open>_serve_client\<close>. When \<^verbatim>\<open>_serve_client\<close> returns, the peer having disconnected, the
  loop goes on at once; while it serves, and while no attempt is under way, the task
  stays in the loop. An exception that is not an instance of \<^verbatim>\<open>OSError\<close> ends the
  loop, from either call, and nothing else does: this is how a cancellation arrives.
  After any number of caught failures, a connection that succeeds is served: the write
  task is spawned and the socket is among the clients.
\<close>

theorem open_connection_loop_retries:
  "(is_OSError e \<longrightarrow>
      open_connection_loop ip (ConnectRaises e # rest) st
        = open_connection_loop ip rest
            (st\<lparr>tcp_effects := tcp_effects st
                @ [Log Info ''Trying to connect...'', LogExc Error ''ConnectionError: '' e, Sleep 1]\<rparr>))
   \<and> (serve_client client_f ip recvs_f (tcp_do (Log Info ''Trying to connect...'') st) = (Raised e_f, st_f)
        \<and> is_OSError e_f \<longrightarrow>
      open_connection_loop ip (Connected client_f recvs_f # rest) st
        = open_connection_loop ip rest
            (st_f\<lparr>tcp_effects := tcp_effects st_f @ [LogExc Error ''ConnectionError: '' e_f, Sleep 1]\<rparr>))
   \<and> (serve_client client_d ip recvs_d (tcp_do (Log Info ''Trying to connect...'') st) = (Returned (), st_d)
        \<longrightarrow> open_connection_loop ip (Connected client_d recvs_d # rest) st
              = open_connection_loop ip rest st_d)
   \<and> (\<not> is_OSError e_u \<longrightarrow>
      open_connection_loop ip (ConnectRaises e_u # rest) st
        = (Exited e_u, tcp_do (Log Info ''Trying to connect...'') st))
   \<and> (serve_client client_u ip recvs_u (tcp_do (Log Info ''Trying to connect...'') st) = (Raised e_v, st_u)
        \<and> \<not> is_OSError e_v \<longrightarrow>
      open_connection_loop ip (Connected client_u recvs_u # rest) st = (Exited e_v, st_u))
   \<and> (serve_client client_s ip recvs_s (tcp_do (Log Info ''Trying to connect...'') st) = (Suspended, st_s)
        \<longrightarrow> open_connection_loop ip (Connected client_s recvs_s # rest) st = (Running, st_s))
   \<and> open_connection_loop ip [] st = (Running, st)
   \<and> (fst (open_connection_loop ip script st) = Exited x \<longrightarrow>
        \<not> is_OSError x \<and> x \<in> set (concat (map raised_in script)))
   \<and> (list_all is_OSError es \<longrightarrow>
        fst (open_connection_loop ip (map ConnectRaises es @ [Connected client []]) st) = Running
        \<and> clients (snd (open_connection_loop ip (map ConnectRaises es @ [Connected client []]) st))
            = clients st @ [client]
        \<and> tcp_effects (snd (open_connection_loop ip (map ConnectRaises es @ [Connected client []]) st))
            = tcp_effects st
              @ concat (map (\<lambda>e. [Log Info ''Trying to connect...'',
                                   LogExc Error ''ConnectionError: '' e, Sleep 1]) es)
              @ [Log Info ''Trying to connect...'', Log Info ''Client connected'', SpawnWriteTask])"
proof -
  have one: "is_OSError e \<longrightarrow>
      open_connection_loop ip (ConnectRaises e # rest) st
        = open_connection_loop ip rest
            (st\<lparr>tcp_effects := tcp_effects st
                @ [Log Info ''Trying to connect...'', LogExc Error ''ConnectionError: '' e, Sleep 1]\<rparr>)"
    by (simp add: Let_def retry_after_def tcp_do_def)
  have served_fails: "serve_client client_f ip recvs_f (tcp_do (Log Info ''Trying to connect...'') st) = (Raised e_f, st_f)
        \<and> is_OSError e_f \<longrightarrow>
      open_connection_loop ip (Connected client_f recvs_f # rest) st
        = open_connection_loop ip rest
            (st_f\<lparr>tcp_effects := tcp_effects st_f @ [LogExc Error ''ConnectionError: '' e_f, Sleep 1]\<rparr>)"
    by (simp add: Let_def retry_after_def)
  have served_ends: "serve_client client_d ip recvs_d (tcp_do (Log Info ''Trying to connect...'') st) = (Returned (), st_d)
        \<longrightarrow> open_connection_loop ip (Connected client_d recvs_d # rest) st
              = open_connection_loop ip rest st_d"
    by (simp add: Let_def)
  have connect_uncaught: "\<not> is_OSError e_u \<longrightarrow>
      open_connection_loop ip (ConnectRaises e_u # rest) st
        = (Exited e_u, tcp_do (Log Info ''Trying to connect...'') st)"
    by (simp add: Let_def)
  have served_uncaught: "serve_client client_u ip recvs_u (tcp_do (Log Info ''Trying to connect...'') st) = (Raised e_v, st_u)
        \<and> \<not> is_OSError e_v \<longrightarrow>
      open_connection_loop ip (Connected client_u recvs_u # rest) st = (Exited e_v, st_u)"
    by (simp add: Let_def)
  have still_served: "serve_client client_s ip recvs_s (tcp_do (Log Info ''Trying to connect...'') st) = (Suspended, st_s)
        \<longrightarrow> open_connection_loop ip (Connected client_s recvs_s # rest) st = (Running, st_s)"
    by (simp add: Let_def)
  have idle: "open_connection_loop ip [] st = (Running, st)"
    by simp
  have two: "fst (open_connection_loop ip script st) = Exited x \<longrightarrow>
        \<not> is_OSError x \<and> x \<in> set (concat (map raised_in script))"
    using open_connection_loop_exit by blast
  have three: "open_connection_loop ip (map ConnectRaises es @ [Connected client []]) st
      = open_connection_loop ip [Connected client []] (after_failures es st)"
    if "list_all is_OSError es"
    using that by (rule open_connection_loop_failures)
  have serve: "open_connection_loop ip [Connected client []] s
      = (Running,
         s\<lparr>address := ip,
           tcp_effects := tcp_effects s
             @ [Log Info ''Trying to connect...'', Log Info ''Client connected'', SpawnWriteTask],
           write_task_handle := True,
           clients := clients s @ [client]\<rparr>)" for s
    by (simp add: Let_def serve_client_def tcp_do_def)
  have last: "list_all is_OSError es \<longrightarrow>
        fst (open_connection_loop ip (map ConnectRaises es @ [Connected client []]) st) = Running
        \<and> clients (snd (open_connection_loop ip (map ConnectRaises es @ [Connected client []]) st))
            = clients st @ [client]
        \<and> tcp_effects (snd (open_connection_loop ip (map ConnectRaises es @ [Connected client []]) st))
            = tcp_effects st
              @ concat (map (\<lambda>e. [Log Info ''Trying to connect...'',
                                   LogExc Error ''ConnectionError: '' e, Sleep 1]) es)
              @ [Log Info ''Trying to connect...'', Log Info ''Client connected'', SpawnWriteTask]"
    using three serve by (simp add: after_failures_effects after_failures_clients)
  from one served_fails served_ends connect_uncaught served_uncaught still_served idle two last
  show ?thesis by blast
qed

theorem open_connection_loop_witness:
  "is_OSError ConnectionError \<and> list_all is_OSError [ConnectionError, TimeoutError]
   \<and> open_connection_loop ''192.168.0.5''
        [ConnectRaises ConnectionError, ConnectRaises TimeoutError, Connected 7 []] (TCP_init 2000)
      = (Running,
         (TCP_init 2000)
           \<lparr>clients := [7], address := ''192.168.0.5'', write_task_handle := True,
            tcp_effects :=
              [Log Info ''Trying to connect...'', LogExc Error ''ConnectionError: '' ConnectionError, Sleep 1,
               Log Info ''Trying to connect...'', LogExc Error ''ConnectionError: '' TimeoutError, Sleep 1,
               Log Info ''Trying to connect...'', Log Info ''Client connected'', SpawnWriteTask]\<rparr>)
   \<and> open_connection_loop ''192.168.0.5''
        [Connected 7 [Recv [1], RecvRaises ConnectionError], Connected 8 []] (TCP_init 2000)
      = (Running,
         (TCP_init 2000)
           \<lparr>clients := [8], address := ''192.168.0.5'', write_task_handle := True,
            read_queue := \<lparr>maxsize = 1000, queued = [[1]]\<rparr>,
            tcp_effects :=
              [Log Info ''Trying to connect...'', Log Info ''Client connected'', SpawnWriteTask,
               CloseClient 7, Log Warn ''Client closed connection'', CancelWriteTask,
               LogExc Error ''ConnectionError: '' ConnectionError, Sleep 1,
               Log Info ''Trying to connect...'', Log Info ''Client connected'', SpawnWriteTask]\<rparr>)
   \<and> open_connection_loop ''192.168.0.5'' [Connected 7 [Recv []], Connected 8 []] (TCP_init 2000)
      = (Running,
         (TCP_init 2000)
           \<lparr>clients := [8], address := ''192.168.0.5'', write_task_handle := True,
            tcp_effects :=
              [Log Info ''Trying to connect...'', Log Info ''Client connected'', SpawnWriteTask,
               Log Warn ''Client closed connection'', CancelWriteTask,
               Log Info ''Trying to connect...'', Log Info ''Client connected'', SpawnWriteTask]\<rparr>)
   \<and> fst (open_connection_loop ''192.168.0.5''
        [ConnectRaises ConnectionError, Connected 7 [Recv [1], RecvRaises TaskCancelled]] (TCP_init 2000))
      = Exited TaskCancelled
   \<and> fst (open_connection_loop ''192.168.0.5'' [ConnectRaises TaskCancelled] (TCP_init 2000))
      = Exited TaskCancelled
   \<and> \<not> is_OSError TaskCancelled"
  using open_connection_loop_retries
    [where e = ConnectionError and ip = "''192.168.0.5''"
      and rest = "[Connected 8 []]" and st = "TCP_init 2000"
      and client_f = 7 and recvs_f = "[Recv [1], RecvRaises ConnectionError]" and e_f = ConnectionError
      and st_f = "snd (serve_client 7 ''192.168.0.5'' [Recv [1], RecvRaises ConnectionError]
                        (tcp_do (Log Info ''Trying to connect...'') (TCP_init 2000)))"
      and client_d = 7 and recvs_d = "[Recv []]"
      and st_d = "snd (serve_client 7 ''192.168.0.5'' [Recv []]
                        (tcp_do (Log Info ''Trying to connect...'') (TCP_init 2000)))"
      and e_u = TaskCancelled
      and client_u = 7 and recvs_u = "[Recv [1], RecvRaises TaskCancelled]" and e_v = TaskCancelled
      and st_u = "snd (serve_client 7 ''192.168.0.5'' [Recv [1], RecvRaises TaskCancelled]
                        (tcp_do (Log Info ''Trying to connect...'') (TCP_init 2000)))"
      and client_s = 7 and recvs_s = "[Recv [1]]"
      and st_s = "snd (serve_client 7 ''192.168.0.5'' [Recv [1]]
                        (tcp_do (Log Info ''Trying to connect...'') (TCP_init 2000)))"
      and script = "[ConnectRaises ConnectionError, Connected 7 [Recv [1], RecvRaises TaskCancelled]]"
      and x = TaskCancelled and es = "[ConnectionError, TimeoutError]" and client = 7]
  by (simp add: Let_def serve_client_def tcp_do_def retry_after_def TCP_init_def
      serve_client_block_def full_def qsize_def Queue_def queue_put_def serve_client_finally_def)

text \<open>
  The claim's "never exits except through explicit cancellation" fails when an attempt
  raises an exception that is neither an \<^verbatim>\<open>OSError\<close> nor a cancellation, here a
  \<^verbatim>\<open>TypeError\<close> out of \<^verbatim>\<open>curio.open_connection\<close>: the clause does not catch it and the
  loop ends with it.
\<close>

theorem open_connection_loop_exit_counterexample:
  "fst (open_connection_loop ''192.168.0.5'' [ConnectRaises TypeError] (TCP_init 2000)) = Exited TypeError
   \<and> TypeError \<noteq> TaskCancelled"
  by simp

section \<open>Properties of the NMEA device\<close>













section \<open>Properties of the binary frame codec\<close>

lemma decode_frames_append:
  "decode_frames table checksum (xs @ ys) =
     (fst (decode_frames table checksum xs) @ fst (decode_frames table checksum ys),
      snd (decode_frames table checksum xs) @ snd (decode_frames table checksum ys))"
  by (induction xs) (auto split: prod.splits sum.splits)

text \<open>
  Claim C2, on the decoder modelled from the specification. A frame of a known command
  that has one byte fewer than the length its entry's rule gives fails with
  \<open>InsufficientData\<close>, one with one byte remainder fails with \<open>ExcessData\<close>, and a frame whose
  command byte has no entry fails with \<open>UnrecognizedCommand\<close>. A failure concerns its
  frame only: the frames before and after it in the stream are decoded and published as
  they are without it, and the one failure is logged.
\<close>

theorem decode_frame_boundary_errors:
  "(table command = Some entry
      \<and> Suc (length (command # length_byte # remainder)) = frame_length_rule entry length_byte
    \<longrightarrow> decode table checksum (command # length_byte # remainder) = Inl InsufficientData)
   \<and> (table command = Some entry
      \<and> length (command # length_byte # remainder) = Suc (frame_length_rule entry length_byte)
    \<longrightarrow> decode table checksum (command # length_byte # remainder) = Inl ExcessData)
   \<and> (table command = None
    \<longrightarrow> decode table checksum (command # rest) = Inl UnrecognizedCommand)
   \<and> (decode table checksum frame = Inl e
    \<longrightarrow> fst (decode_frames table checksum (before @ frame # after))
          = fst (decode_frames table checksum (before @ after))
        \<and> snd (decode_frames table checksum (before @ frame # after))
          = snd (decode_frames table checksum before) @ e # snd (decode_frames table checksum after))"
proof -
  have scoped: "fst (decode_frames table checksum (before @ frame # after))
          = fst (decode_frames table checksum (before @ after))
        \<and> snd (decode_frames table checksum (before @ frame # after))
          = snd (decode_frames table checksum before) @ e # snd (decode_frames table checksum after)"
    if "decode table checksum frame = Inl e"
    using that by (simp add: decode_frames_append split: prod.splits)
  have short: "decode table checksum (command # length_byte # remainder) = Inl InsufficientData"
    if "table command = Some entry"
      and "Suc (length (command # length_byte # remainder)) = frame_length_rule entry length_byte"
    using that by (simp add: decode_def Let_def)
  have long: "decode table checksum (command # length_byte # remainder) = Inl ExcessData"
    if "table command = Some entry"
      and "length (command # length_byte # remainder) = Suc (frame_length_rule entry length_byte)"
    using that by (simp add: decode_def Let_def)
  have unknown: "decode table checksum (command # rest) = Inl UnrecognizedCommand"
    if "table command = None"
    using that by (simp add: decode_def)
  from scoped short long unknown show ?thesis by blast
qed

theorem decode_frame_boundary_errors_witness:
  "decode example_table example_checksum [0x00, 0x01, 0x00, 0x00] = Inl InsufficientData
   \<and> decode example_table example_checksum [0x00, 0x03, 0x00, 0x00, 0x00, 0x00] = Inl ExcessData
   \<and> decode example_table example_checksum [0xFF, 0x03, 0x00, 0x00, 0x00, 0x00] = Inl UnrecognizedCommand
   \<and> decode_frames example_table example_checksum
        [[0x00, 0x02, 0x00, 0xDB, 0xDD], [0xFF, 0x03, 0x00, 0x00, 0x00, 0x00], [0x00, 0x02, 0x01, 0x02, 0x05]]
      = ([[0x00, 0xDB], [0x01, 0x02]], [UnrecognizedCommand])"
  using decode_frame_boundary_errors
    [of example_table 0 "the (example_table 0)" 1 "[0x00, 0x00]" example_checksum
      "[0x03, 0x00, 0x00, 0x00, 0x00]" "[0xFF, 0x03, 0x00, 0x00, 0x00, 0x00]" UnrecognizedCommand
      "[[0x00, 0x02, 0x00, 0xDB, 0xDD]]" "[[0x00, 0x02, 0x01, 0x02, 0x05]]"]
  by (simp add: decode_def example_table_def example_checksum_def Let_def)

section \<open>Properties of the lock\<close>

lemma io_task_step_guards:
  assumes "lock_guards s" and "io_task_step x s = Some s'"
  shows "lock_guards s'"
proof (cases x)
  case (CallRead t)
  with assms show ?thesis
    by (auto simp: lock_guards_def in_backend_def split: if_splits)
next
  case (CallWrite t)
  with assms show ?thesis
    by (auto simp: lock_guards_def in_backend_def split: if_splits)
next
  case (Acquire t)
  with assms show ?thesis
    by (auto simp: lock_guards_def in_backend_def split: if_splits)
next
  case (Finish t)
  with assms show ?thesis
    by (auto simp: lock_guards_def in_backend_def split: if_splits)
qed

lemma io_task_run_guards:
  "lock_guards s \<Longrightarrow> io_task_run xs s = Some s' \<Longrightarrow> lock_guards s'"
proof (induction xs arbitrary: s)
  case Nil
  then show ?case by simp
next
  case (Cons x xs)
  then show ?case
    by (auto split: option.splits dest: io_task_step_guards)
qed

lemma io_tasks_init_guards: "lock_guards io_tasks_init"
  by (simp add: lock_guards_def in_backend_def io_tasks_init_def)

text \<open>
  Claim C10. In every state the tasks can reach on one instance, at most one task is
  inside a backend call, be it \<^verbatim>\<open>_read\<close> or \<^verbatim>\<open>_write\<close>: no two reads, no two writes and
  no read beside a write are in flight together. Both calls wait for the same lock: while
  one task is in a backend call no other task can acquire, whichever of the two it
  called.
\<close>

theorem read_write_mutually_exclusive:
  "io_task_run steps io_tasks_init = Some s \<longrightarrow>
     (task_at s t = InRead \<and> task_at s u = InRead \<longrightarrow> t = u)
   \<and> (task_at s t = InWrite \<and> task_at s u = InWrite \<longrightarrow> t = u)
   \<and> \<not> (task_at s t = InRead \<and> task_at s u = InWrite)
   \<and> (in_backend s t \<longrightarrow> io_task_step (Acquire u) s = None)"
proof
  assume run: "io_task_run steps io_tasks_init = Some s"
  from io_task_run_guards [OF io_tasks_init_guards run]
  have g: "lock_guards s" .
  then have one: "in_backend s a \<and> in_backend s b \<longrightarrow> a = b" for a b
    by (simp add: lock_guards_def)
  have held: "in_backend s t \<longrightarrow> lock_held s"
    using g by (auto simp: lock_guards_def)
  have rr: "task_at s t = InRead \<and> task_at s u = InRead \<longrightarrow> t = u"
    using one [of t u] by (simp add: in_backend_def)
  have ww: "task_at s t = InWrite \<and> task_at s u = InWrite \<longrightarrow> t = u"
    using one [of t u] by (simp add: in_backend_def)
  have rw: "\<not> (task_at s t = InRead \<and> task_at s u = InWrite)"
    using one [of t u] by (auto simp: in_backend_def)
  have acq: "in_backend s t \<longrightarrow> io_task_step (Acquire u) s = None"
    using held by simp
  from rr ww rw acq
  show "(task_at s t = InRead \<and> task_at s u = InRead \<longrightarrow> t = u)
   \<and> (task_at s t = InWrite \<and> task_at s u = InWrite \<longrightarrow> t = u)
   \<and> \<not> (task_at s t = InRead \<and> task_at s u = InWrite)
   \<and> (in_backend s t \<longrightarrow> io_task_step (Acquire u) s = None)"
    by blast
qed

theorem read_write_mutually_exclusive_witness:
  "io_task_run [CallWrite 2, CallRead 1, Acquire 1] io_tasks_init
     = Some \<lparr>lock_held = True, task_at = (\<lambda>t. Outside)(2 := WriteWaits, 1 := InRead)\<rparr>
   \<and> in_backend \<lparr>lock_held = True, task_at = (\<lambda>t. Outside)(2 := WriteWaits, 1 := InRead)\<rparr> 1
   \<and> io_task_step (Acquire 2) \<lparr>lock_held = True, task_at = (\<lambda>t. Outside)(2 := WriteWaits, 1 := InRead)\<rparr>
     = None
   \<and> io_task_run [CallWrite 2, CallRead 1, Acquire 1, Acquire 2] io_tasks_init = None
   \<and> (case io_task_run [CallWrite 2, CallRead 1, Acquire 1, Finish 1, Acquire 2] io_tasks_init of
         None \<Rightarrow> False
       | Some s \<Rightarrow> task_at s 1 = Outside \<and> task_at s 2 = InWrite)"
  using read_write_mutually_exclusive
    [of "[CallWrite 2, CallRead 1, Acquire 1]"
      "\<lparr>lock_held = True, task_at = (\<lambda>t. Outside)(2 := WriteWaits, 1 := InRead)\<rparr>" 1 2]
  by (simp add: io_tasks_init_def in_backend_def)

end
